theory Spec2Isabelle
  imports Main "HOL-Library.Sublist" "HOL-Library.List_Lexorder"
begin

text \<open>
  A model of the users controller (\<open>users.controller.js\<close>), of the users table it works on
  and of the team router (\<open>teams.route.js\<close>) of a hackathon team-formation backend. The
  database is a list of rows, a handler is a function from the request and the table to
  its result and, where it writes, the new table. An exception is a value of type
  \<open>error\<close>. The definitions come first, the properties after them.
\<close>

section \<open>Strings and request values\<close>

text \<open>
  A JavaScript string is modelled as a \<^typ>\<open>string\<close>, one \<^typ>\<open>char\<close> per code unit, so
  only code units below 256 are covered. \<open>String.prototype.trim\<close> removes white space and
  line terminators from both ends; below 256 these are the codes 9 to 13, 32 and 160.
\<close>

definition is_ws :: "char \<Rightarrow> bool" where
  "is_ws c = (let n = (of_char c :: nat) in (9 \<le> n \<and> n \<le> 13) \<or> n = 32 \<or> n = 160)"

definition trim :: "string \<Rightarrow> string" where
  "trim s = rev (dropWhile is_ws (rev (dropWhile is_ws s)))"

text \<open>
  Case folding as the database's \<open>ILIKE\<close> applies it, restricted to the ASCII letters.
\<close>

definition lower :: "char \<Rightarrow> char" where
  "lower c =
     (case map_of (zip ''ABCDEFGHIJKLMNOPQRSTUVWXYZ'' ''abcdefghijklmnopqrstuvwxyz'') c of
        None \<Rightarrow> c
      | Some l \<Rightarrow> l)"

text \<open>
  \<open>parseInt(string)\<close> without a radix: leading white space is skipped, then an optional
  sign, then an optional \<open>0x\<close> or \<open>0X\<close> that selects radix 16, then the longest run of
  digits of the radix. No digit at all gives \<open>NaN\<close>, which is \<open>None\<close> here. (The
  rounding of integers beyond \<open>2^53\<close> is not modelled.)
\<close>

definition digit_val :: "char \<Rightarrow> nat option" where
  "digit_val c =
     (let n = (of_char c :: nat) in
      if 48 \<le> n \<and> n \<le> 57 then Some (n - 48)
      else if 97 \<le> n \<and> n \<le> 122 then Some (n - 87)
      else if 65 \<le> n \<and> n \<le> 90 then Some (n - 55)
      else None)"

definition is_digit :: "nat \<Rightarrow> char \<Rightarrow> bool" where
  "is_digit radix c = (case digit_val c of None \<Rightarrow> False | Some d \<Rightarrow> d < radix)"

definition digits_value :: "nat \<Rightarrow> string \<Rightarrow> nat" where
  "digits_value radix ds =
     foldl (\<lambda>a c. a * radix + (case digit_val c of None \<Rightarrow> 0 | Some d \<Rightarrow> d)) 0 ds"

definition parseInt :: "string \<Rightarrow> int option" where
  "parseInt s =
     (let t = dropWhile is_ws s;
          neg = (case t of [] \<Rightarrow> False | c # _ \<Rightarrow> c = CHR ''-'');
          u = (case t of [] \<Rightarrow> [] | c # r \<Rightarrow> if c = CHR ''-'' \<or> c = CHR ''+'' then r else t);
          hex = (case u of a # b # _ \<Rightarrow> a = CHR ''0'' \<and> (b = CHR ''x'' \<or> b = CHR ''X'') | _ \<Rightarrow> False);
          radix = (if hex then 16 else 10);
          ds = takeWhile (is_digit radix) (if hex then drop 2 u else u)
      in if ds = [] then None
         else Some ((if neg then - 1 else 1) * int (digits_value radix ds)))"

text \<open>
  A value of a request body or of a result row: a JSON string or \<open>null\<close>. A key that is
  absent (\<open>undefined\<close> in the handler) is \<open>None\<close> of the surrounding map. Numbers,
  booleans, arrays and objects as request values are outside the model.
\<close>

datatype jsval = JNull | JStr string

type_synonym body = "string \<rightharpoonup> jsval"

type_synonym row = "(string \<times> jsval) list"

text \<open>How a template literal \<open>`${v}`\<close> renders a value.\<close>

definition template :: "jsval option \<Rightarrow> string" where
  "template v = (case v of None \<Rightarrow> ''undefined'' | Some JNull \<Rightarrow> ''null'' | Some (JStr s) \<Rightarrow> s)"

text \<open>\<open>!v\<close> for a query or path parameter: absent or the empty string.\<close>

definition falsy :: "string option \<Rightarrow> bool" where
  "falsy v = (case v of None \<Rightarrow> True | Some s \<Rightarrow> s = [])"

section \<open>Errors and responses\<close>

text \<open>
  \<open>ApiError code message\<close> is the exception the handlers throw themselves. Every other
  exception (a failure of the database, a \<open>TypeError\<close>) is \<open>OtherError\<close>; the HTTP layer
  answers it with status 500. In the specification's taxonomy status 400 is
  \<open>ValidationError\<close>, 404 is \<open>NotFoundError\<close>, and the \<open>ApiError\<close> with status 500 that
  \<open>uploadProfileImage\<close> throws is \<open>UpstreamError\<close>.
\<close>

datatype error = ApiError nat string | OtherError

datatype 'a response = ApiResponse nat 'a string

section \<open>The users table\<close>

text \<open>
  The declaration of \<open>usersTable\<close> (\<open>pgTable("users", {...})\<close>), one entry per declared
  column in the order of the source: the property name, then the SQL name, the type and
  the modifiers as the source chains them. The line that would declare \<open>role\<close>
  (\<open>varchar("role", { length: 255 }).default(UserRole.USER).notNull()\<close>) is commented out
  in the source, so the table has no such entry.
\<close>

datatype col_type = Uuid | Varchar nat | Text | Boolean | Timestamp

datatype col_default = NoDefault | DefaultRandom | DefaultNow | DefaultText string

record column =
  sql_name :: string
  col_type :: col_type
  primaryKey :: bool
  notNull :: bool
  unique :: bool
  default_value :: col_default

definition usersTable :: "(string \<times> column) list" where
  "usersTable =
    [(''id'', \<lparr>sql_name = ''id'', col_type = Uuid, primaryKey = True, notNull = False,
        unique = False, default_value = DefaultRandom\<rparr>),
     (''email'', \<lparr>sql_name = ''email'', col_type = Varchar 255, primaryKey = False,
        notNull = True, unique = True, default_value = NoDefault\<rparr>),
     (''fullName'', \<lparr>sql_name = ''full_name'', col_type = Varchar 255, primaryKey = False,
        notNull = True, unique = False, default_value = NoDefault\<rparr>),
     (''userName'', \<lparr>sql_name = ''user_name'', col_type = Varchar 255, primaryKey = False,
        notNull = False, unique = True, default_value = NoDefault\<rparr>),
     (''password'', \<lparr>sql_name = ''password'', col_type = Text, primaryKey = False,
        notNull = True, unique = False, default_value = NoDefault\<rparr>),
     (''avatarUrl'', \<lparr>sql_name = ''avatar_url'', col_type = Text, primaryKey = False,
        notNull = False, unique = False, default_value = DefaultText ''avatar''\<rparr>),
     (''bio'', \<lparr>sql_name = ''bio'', col_type = Text, primaryKey = False,
        notNull = False, unique = False, default_value = DefaultText ''--''\<rparr>),
     (''isVerified'', \<lparr>sql_name = ''is_verified'', col_type = Boolean, primaryKey = False,
        notNull = True, unique = False, default_value = NoDefault\<rparr>),
     (''code'', \<lparr>sql_name = ''code'', col_type = Text, primaryKey = False,
        notNull = True, unique = False, default_value = NoDefault\<rparr>),
     (''expiresAt'', \<lparr>sql_name = ''expires_at'', col_type = Timestamp, primaryKey = False,
        notNull = True, unique = False, default_value = NoDefault\<rparr>),
     (''createdAt'', \<lparr>sql_name = ''created_at'', col_type = Timestamp, primaryKey = False,
        notNull = True, unique = False, default_value = DefaultNow\<rparr>),
     (''updatedAt'', \<lparr>sql_name = ''updated_at'', col_type = Timestamp, primaryKey = False,
        notNull = True, unique = False, default_value = DefaultNow\<rparr>)]"

text \<open>
  What a newly inserted row holds in the column of a property when the insert gives no
  value for it: nothing at all when the table declares no such column (\<open>None\<close>), otherwise
  the declared default (\<open>Some\<close>).
\<close>

definition default_of :: "string \<Rightarrow> col_default option" where
  "default_of prop = map_option default_value (map_of usersTable prop)"

text \<open>
  A row of the table, as the handlers see it. The first twelve fields are the declared
  columns: nullable text columns hold a \<^typ>\<open>string option\<close>, timestamps are numbers, and
  the field \<open>user_id\<close> is the column \<open>id\<close>.
\<close>

text \<open>
  Modelled from the spec: the last five fields, the columns \<open>role\<close>, \<open>location\<close>,
  \<open>skills\<close>, \<open>interests\<close> and \<open>socialLinks\<close>. The controller reads and writes them as
  \<open>usersTable.role\<close>, \<open>usersTable.location\<close> and so on, but the table declaration in the
  source does not declare them; the specification lists them as fields of a user and of
  the profile. They are taken as nullable columns without a constraint, holding the value
  as it was written.
\<close>

record user =
  user_id :: string
  email :: string
  fullName :: string
  userName :: "string option"
  password :: string
  avatarUrl :: "string option"
  bio :: "string option"
  isVerified :: bool
  code :: string
  expiresAt :: nat
  createdAt :: nat
  updatedAt :: nat
  role :: jsval
  location :: jsval
  skills :: jsval
  interests :: jsval
  socialLinks :: jsval

text \<open>The columns the handlers select, each as the JSON value a result row carries.\<close>

definition text_val :: "string option \<Rightarrow> jsval" where
  "text_val v = (case v of None \<Rightarrow> JNull | Some s \<Rightarrow> JStr s)"

definition col_id :: "user \<Rightarrow> jsval" where "col_id u = JStr (user_id u)"
definition col_email :: "user \<Rightarrow> jsval" where "col_email u = JStr (email u)"
definition col_fullName :: "user \<Rightarrow> jsval" where "col_fullName u = JStr (fullName u)"
definition col_userName :: "user \<Rightarrow> jsval" where "col_userName u = text_val (userName u)"
definition col_avatarUrl :: "user \<Rightarrow> jsval" where "col_avatarUrl u = text_val (avatarUrl u)"
definition col_bio :: "user \<Rightarrow> jsval" where "col_bio u = text_val (bio u)"

text \<open>
  A selection \<open>{key: usersTable.prop, ...}\<close> is a list of keys, each with the column it
  names. A property that the table object does not have (\<open>usersTable.socialsLinks\<close>) is
  \<open>undefined\<close>, here \<open>None\<close>. The parameter \<open>strict\<close> says what the query builder does with
  such an entry: it throws while building the query (\<open>True\<close>; drizzle-orm walks the
  selection with \<open>Object.entries\<close>, which throws a \<open>TypeError\<close> on \<open>undefined\<close>), or it
  leaves the key out of the result rows (\<open>False\<close>).
\<close>

type_synonym selection = "(string \<times> (user \<Rightarrow> jsval) option) list"

definition select_row :: "selection \<Rightarrow> user \<Rightarrow> row" where
  "select_row sel u =
     concat (map (\<lambda>(k, c). case c of None \<Rightarrow> [] | Some f \<Rightarrow> [(k, f u)]) sel)"

definition select_rows :: "bool \<Rightarrow> selection \<Rightarrow> user list \<Rightarrow> error + row list" where
  "select_rows strict sel us =
     (if strict \<and> list_ex (\<lambda>(k, c). c = None) sel then Inl OtherError
      else Inr (map (select_row sel) us))"

section \<open>Query operators\<close>

text \<open>
  \<open>LIKE\<close> as PostgreSQL matches it: \<open>%\<close> stands for any run of characters, \<open>_\<close> for any
  one character, and the backslash (code \<open>0x5C\<close>) makes the character after it stand for
  itself. The first argument is the pattern. A pattern that ends in a lone backslash is
  rejected by the database; it matches nothing here, and no pattern of this program has
  that form, since each ends in \<open>%\<close>.
\<close>

fun like :: "string \<Rightarrow> string \<Rightarrow> bool" where
  "like [] s = (s = [])"
| "like (p # ps) s =
    (if p = CHR ''%'' then
       (like ps s \<or> (case s of [] \<Rightarrow> False | c # cs \<Rightarrow> like (p # ps) cs))
     else if p = CHR ''_'' then (case s of [] \<Rightarrow> False | c # cs \<Rightarrow> like ps cs)
     else if p = CHR 0x5C then
       (case ps of [] \<Rightarrow> False
        | e # es \<Rightarrow> (case s of [] \<Rightarrow> False | c # cs \<Rightarrow> c = e \<and> like es cs))
     else (case s of [] \<Rightarrow> False | c # cs \<Rightarrow> c = p \<and> like ps cs))"

text \<open>
  \<open>ilike(column, pattern)\<close>: \<open>LIKE\<close> on the case-folded pattern and value. On a \<open>NULL\<close>
  column the comparison is \<open>NULL\<close>, which a \<open>WHERE\<close> clause treats as false.
\<close>

definition ilike :: "string option \<Rightarrow> string \<Rightarrow> bool" where
  "ilike v pat = (case v of None \<Rightarrow> False | Some s \<Rightarrow> like (map lower pat) (map lower s))"

text \<open>
  \<open>.limit(n)\<close>: the query builder emits \<open>LIMIT n\<close> when \<open>n\<close> is a number that is at least
  0; for \<open>NaN\<close> or a negative number the query has no \<open>LIMIT\<close> clause.
\<close>

definition limit_rows :: "int option \<Rightarrow> 'a list \<Rightarrow> 'a list" where
  "limit_rows n rows =
     (case n of None \<Rightarrow> rows | Some k \<Rightarrow> if 0 \<le> k then take (nat k) rows else rows)"

section \<open>The users controller\<close>

subsection \<open>searchUsers\<close>

text \<open>
  \<open>searchUsers coll db q limit\<close>: \<open>q\<close> and \<open>limit\<close> are the query parameters of the request
  (\<open>None\<close> when absent), \<open>db\<close> the rows of the users table. \<open>ORDER BY full_name\<close> sorts by
  the collation of the database, which is the parameter \<open>coll\<close>: it maps a string to its
  sort key. The sort is applied before the limit, as SQL does whatever the order of the
  builder calls. Rows with equal keys keep their order in the table.
\<close>

definition search_fields :: selection where
  "search_fields =
     [(''id'', Some col_id), (''fullName'', Some col_fullName), (''username'', Some col_userName),
      (''email'', Some col_email), (''avatarUrl'', Some col_avatarUrl), (''bio'', Some col_bio)]"

definition search_where :: "string \<Rightarrow> user \<Rightarrow> bool" where
  "search_where searchTerm u =
     (let pat = ''%'' @ searchTerm @ ''%'' in
      ilike (Some (fullName u)) pat \<or> ilike (userName u) pat \<or> ilike (Some (email u)) pat)"

definition search_query :: "(string \<Rightarrow> 'k::linorder) \<Rightarrow> user list \<Rightarrow> string \<Rightarrow> int option \<Rightarrow> user list" where
  "search_query coll db searchTerm n =
     limit_rows n (sort_key (\<lambda>u. coll (fullName u)) (filter (search_where searchTerm) db))"

definition searchUsers ::
  "(string \<Rightarrow> 'k::linorder) \<Rightarrow> user list \<Rightarrow> string option \<Rightarrow> string option
     \<Rightarrow> error + row list response" where
  "searchUsers coll db q limit =
     (case q of
        None \<Rightarrow> Inl (ApiError 400 ''Search query must be at least 2 characters'')
      | Some qs \<Rightarrow>
          if qs = [] \<or> length (trim qs) < 2
          then Inl (ApiError 400 ''Search query must be at least 2 characters'')
          else
            let searchTerm = trim qs;
                n = (case limit of None \<Rightarrow> Some 10 | Some l \<Rightarrow> parseInt l);
                users = search_query coll db searchTerm n
            in Inr (ApiResponse 200 (map (select_row search_fields) users)
                      ''Users found successfully''))"




text \<open>The collation that compares strings code by code (\<open>C\<close> in PostgreSQL).\<close>

definition byte_order :: "string \<Rightarrow> nat list" where
  "byte_order s = map of_char s"

definition query_too_short :: "string option \<Rightarrow> bool" where
  "query_too_short q = (case q of None \<Rightarrow> True | Some s \<Rightarrow> length (trim s) < 2)"

subsection \<open>Rows by key, updates\<close>

text \<open>
  \<open>db.update(usersTable).set(...).where(cond)\<close> rewrites every row that satisfies the
  condition and leaves the others as they are.
\<close>

definition update_where :: "(user \<Rightarrow> bool) \<Rightarrow> (user \<Rightarrow> user) \<Rightarrow> user list \<Rightarrow> user list" where
  "update_where cond f db = map (\<lambda>u. if cond u then f u else u) db"

definition find_user :: "user list \<Rightarrow> string \<Rightarrow> user option" where
  "find_user db uid = find (\<lambda>u. user_id u = uid) db"

text \<open>
  How \<open>.set({column: v})\<close> writes a request value: the builder leaves out a key whose
  value is \<open>undefined\<close>, so the column keeps what it held; \<open>null\<close> is written as \<open>NULL\<close>.
\<close>

definition set_text :: "jsval option \<Rightarrow> string option \<Rightarrow> string option" where
  "set_text v old = (case v of None \<Rightarrow> old | Some JNull \<Rightarrow> None | Some (JStr s) \<Rightarrow> Some s)"

definition set_json :: "jsval option \<Rightarrow> jsval \<Rightarrow> jsval" where
  "set_json v old = (case v of None \<Rightarrow> old | Some x \<Rightarrow> x)"

text \<open>A number in decimal, as a template literal renders \<open>Date.now()\<close>.\<close>

fun decimal :: "nat \<Rightarrow> string" where
  "decimal n =
     (if n < 10 then [''0123456789'' ! n]
      else decimal (n div 10) @ [''0123456789'' ! (n mod 10)])"

declare decimal.simps [simp del]

subsection \<open>uploadProfileImage\<close>

text \<open>
  The object storage is the parameter \<open>cloud\<close>, which stands for
  \<open>uploadBufferToCloudinary\<close>: given the buffer and the options it returns the
  \<open>secure_url\<close> of the stored object, or \<open>None\<close> when it throws. \<open>now\<close> is \<open>Date.now()\<close>,
  \<open>file\<close> is \<open>req.file\<close> reduced to its buffer, \<open>userId\<close> is \<open>req.user.id\<close>. A handler
  returns its result together with the table as it leaves it.
\<close>

record upload_options =
  folder :: string
  resource_type :: string
  public_id :: string
  overwrite :: bool

definition image_options :: "string \<Rightarrow> nat \<Rightarrow> upload_options" where
  "image_options userId now =
     \<lparr>folder = ''profile_images'', resource_type = ''image'',
      public_id = ''user_'' @ userId @ ''_'' @ decimal now, overwrite = True\<rparr>"

definition uploadProfileImage ::
  "('b \<Rightarrow> upload_options \<Rightarrow> string option) \<Rightarrow> nat \<Rightarrow> user list \<Rightarrow> string \<Rightarrow> 'b option
     \<Rightarrow> (error + row response) \<times> user list" where
  "uploadProfileImage cloud now db userId file =
     (case file of
        None \<Rightarrow> (Inl (ApiError 400 ''No file uploaded''), db)
      | Some buffer \<Rightarrow>
          (case cloud buffer (image_options userId now) of
             None \<Rightarrow> (Inl (ApiError 500 ''Cloudinary upload failed''), db)
           | Some secure_url \<Rightarrow>
               (Inr (ApiResponse 200 [(''avatarUrl'', JStr secure_url)] ''Profile image updated''),
                update_where (\<lambda>u. user_id u = userId)
                  (\<lambda>u. u\<lparr>avatarUrl := Some secure_url\<rparr>) db)))"

subsection \<open>updateUserProfile\<close>

text \<open>
  The row after \<open>.set({fullName: `${firstName} ${lastName}`, userName, bio, skills,
  interests, socialLinks, location, updatedAt: new Date()})\<close>, the eight names read from
  the request body.
\<close>

definition profile_set :: "nat \<Rightarrow> body \<Rightarrow> user \<Rightarrow> user" where
  "profile_set now b u =
     u\<lparr>fullName := template (b ''firstName'') @ '' '' @ template (b ''lastName''),
       userName := set_text (b ''userName'') (userName u),
       bio := set_text (b ''bio'') (bio u),
       skills := set_json (b ''skills'') (skills u),
       interests := set_json (b ''interests'') (interests u),
       socialLinks := set_json (b ''socialLinks'') (socialLinks u),
       location := set_json (b ''location'') (location u),
       updatedAt := now\<rparr>"

text \<open>
  The constraints of the table that the written columns can break: \<open>fullName\<close> and
  \<open>userName\<close> are \<open>varchar(255)\<close>, and \<open>userName\<close> is unique, so no other row may hold the
  new name. The database rejects such an update and no row changes.
\<close>

definition profile_rejected :: "user list \<Rightarrow> string \<Rightarrow> body \<Rightarrow> bool" where
  "profile_rejected db userId b =
     (255 < length (template (b ''firstName'') @ '' '' @ template (b ''lastName''))
      \<or> (case b ''userName'' of
            Some (JStr s) \<Rightarrow>
              255 < length s \<or> list_ex (\<lambda>v. user_id v \<noteq> userId \<and> userName v = Some s) db
          | _ \<Rightarrow> False))"

definition profile_returning :: selection where
  "profile_returning =
     [(''fullName'', Some col_fullName), (''userName'', Some col_userName), (''bio'', Some col_bio),
      (''location'', Some location), (''socialLinks'', Some socialLinks),
      (''skills'', Some skills), (''interests'', Some interests)]"

definition updateUserProfile ::
  "nat \<Rightarrow> user list \<Rightarrow> string \<Rightarrow> body \<Rightarrow> (error + (string \<times> row) list response) \<times> user list" where
  "updateUserProfile now db userId b =
     (case filter (\<lambda>u. user_id u = userId) db of
        [] \<Rightarrow> (Inl (ApiError 404 ''User not found''), db)
      | u # _ \<Rightarrow>
          if profile_rejected db userId b then (Inl OtherError, db)
          else
            (Inr (ApiResponse 200
                    [(''user'', select_row profile_returning (profile_set now b u))]
                    ''Profile updated successfully''),
             update_where (\<lambda>u. user_id u = userId) (profile_set now b) db))"

subsection \<open>getUserProfileByUsername and getUserProfile\<close>

definition by_username_fields :: selection where
  "by_username_fields =
     [(''id'', Some col_id), (''fullName'', Some col_fullName), (''userName'', Some col_userName),
      (''bio'', Some col_bio), (''location'', Some location), (''avatarUrl'', Some col_avatarUrl),
      (''socialLinks'', Some socialLinks), (''skills'', Some skills),
      (''interests'', Some interests)]"

definition getUserProfileByUsername ::
  "bool \<Rightarrow> user list \<Rightarrow> string option \<Rightarrow> error + row response" where
  "getUserProfileByUsername strict db username =
     (case username of
        None \<Rightarrow> Inl (ApiError 400 ''Username query parameter is required'')
      | Some name \<Rightarrow>
          if name = [] then Inl (ApiError 400 ''Username query parameter is required'')
          else
            (case select_rows strict by_username_fields
                    (take 1 (filter (\<lambda>u. userName u = Some name) db)) of
               Inl e \<Rightarrow> Inl e
             | Inr [] \<Rightarrow> Inl (ApiError 404 ''User not found'')
             | Inr (user # _) \<Rightarrow>
                 Inr (ApiResponse 200 user ''User profile retrieved successfully'')))"

text \<open>
  The selection of \<open>getUserProfile\<close> names \<open>usersTable.socialsLinks\<close> under the key
  \<open>socialsLinks\<close>. The table has no property of that name (the column of the other
  handlers is \<open>socialLinks\<close>), so the entry is \<open>undefined\<close>.
\<close>

definition by_id_fields :: selection where
  "by_id_fields =
     [(''id'', Some col_id), (''fullName'', Some col_fullName), (''userName'', Some col_userName),
      (''bio'', Some col_bio), (''location'', Some location), (''avatarUrl'', Some col_avatarUrl),
      (''socialsLinks'', None), (''skills'', Some skills), (''interests'', Some interests)]"

definition getUserProfile ::
  "bool \<Rightarrow> user list \<Rightarrow> string option \<Rightarrow> error + row response" where
  "getUserProfile strict db userId =
     (case userId of
        None \<Rightarrow> Inl (ApiError 400 ''User ID is required'')
      | Some uid \<Rightarrow>
          if uid = [] then Inl (ApiError 400 ''User ID is required'')
          else
            (case select_rows strict by_id_fields
                    (take 1 (filter (\<lambda>u. user_id u = uid) db)) of
               Inl e \<Rightarrow> Inl e
             | Inr [] \<Rightarrow> Inl (ApiError 404 ''User not found'')
             | Inr (user # _) \<Rightarrow>
                 Inr (ApiResponse 200 user ''User profile retrieved successfully'')))"

subsection \<open>updateUserRole\<close>

definition role_returning :: selection where
  "role_returning =
     [(''id'', Some col_id), (''fullName'', Some col_fullName), (''userName'', Some col_userName),
      (''role'', Some role)]"

definition role_set :: "nat \<Rightarrow> body \<Rightarrow> user \<Rightarrow> user" where
  "role_set now b u = u\<lparr>role := set_json (b ''role'') (role u), updatedAt := now\<rparr>"

definition updateUserRole ::
  "nat \<Rightarrow> user list \<Rightarrow> string \<Rightarrow> body \<Rightarrow> (error + row response) \<times> user list" where
  "updateUserRole now db userId b =
     (case filter (\<lambda>u. user_id u = userId) db of
        [] \<Rightarrow> (Inl (ApiError 404 ''User not found''), db)
      | u # _ \<Rightarrow>
          (Inr (ApiResponse 200 (select_row role_returning (role_set now b u))
                  ''User role updated successfully''),
           update_where (\<lambda>u. user_id u = userId) (role_set now b) db))"

subsection \<open>Fields a request must not reach\<close>

text \<open>
  The fields that the frame condition on \<open>updateUserProfile\<close> names, as one tuple per row.
\<close>

definition untouched :: "user \<Rightarrow> string \<times> string \<times> string option \<times> bool \<times> string \<times> nat" where
  "untouched u = (email u, password u, avatarUrl u, isVerified u, code u, expiresAt u)"

text \<open>
  Two rows that differ at most in \<open>password\<close>, \<open>code\<close>, \<open>expiresAt\<close> and \<open>isVerified\<close>, and
  the keys under which a response would carry these columns.
\<close>

definition same_public :: "user \<Rightarrow> user \<Rightarrow> bool" where
  "same_public u v =
     (v = u\<lparr>password := password v, code := code v, expiresAt := expiresAt v,
            isVerified := isVerified v\<rparr>)"

definition secret_keys :: "string list" where
  "secret_keys = [''password'', ''code'', ''expiresAt'', ''isVerified'']"

section \<open>The team routes\<close>

text \<open>
  The router of \<open>teams.route.js\<close>: one entry per \<open>router.METHOD(path, ...handlers)\<close> call
  that is not commented out, in the order of the source. A path is the list of its
  segments; \<open>:name\<close> is a parameter. The chain lists the middleware and the controller
  function as the call passes them, and Express runs them from left to right.
\<close>

datatype http_method = GET | POST | PUT | DELETE

datatype segment = Lit string | Param string

datatype schema_ref = createTeamSchema | updateTeamSchema

datatype controller_fn =
  CreateTeam | GetTeamById | JoinTeam | LeaveTeam | RemoveMember | TransferLeadership
  | UpdateTeamInfo | GetTeamsByHackathon | GetUserTeams

datatype middleware = VerifyJWT | Validate schema_ref | Controller controller_fn

record route =
  route_method :: http_method
  route_path :: "segment list"
  chain :: "middleware list"

definition router :: "route list" where
  "router =
    [\<lparr>route_method = POST, route_path = [],
      chain = [VerifyJWT, Validate createTeamSchema, Controller CreateTeam]\<rparr>,
     \<lparr>route_method = GET, route_path = [Param ''teamId''],
      chain = [Controller GetTeamById]\<rparr>,
     \<lparr>route_method = PUT, route_path = [Param ''teamId''],
      chain = [VerifyJWT, Validate updateTeamSchema, Controller UpdateTeamInfo]\<rparr>,
     \<lparr>route_method = POST, route_path = [Param ''teamId'', Lit ''join''],
      chain = [VerifyJWT, Controller JoinTeam]\<rparr>,
     \<lparr>route_method = DELETE, route_path = [Param ''teamId'', Lit ''leave''],
      chain = [VerifyJWT, Controller LeaveTeam]\<rparr>,
     \<lparr>route_method = DELETE, route_path = [Param ''teamId'', Lit ''members'', Param ''userId''],
      chain = [VerifyJWT, Controller RemoveMember]\<rparr>,
     \<lparr>route_method = PUT, route_path = [Param ''teamId'', Lit ''transfer'', Param ''userId''],
      chain = [VerifyJWT, Controller TransferLeadership]\<rparr>,
     \<lparr>route_method = GET, route_path = [Lit ''hackathon'', Param ''hackathonId''],
      chain = [Controller GetTeamsByHackathon]\<rparr>,
     \<lparr>route_method = GET, route_path = [Lit ''user'', Lit ''my-teams''],
      chain = [VerifyJWT, Controller GetUserTeams]\<rparr>]"

text \<open>
  How Express matches a request: a literal segment matches the same text, case ignored
  (the router's default), a parameter matches any non-empty segment, and the first route
  of the request's method whose path matches takes the request. The request path is
  given by its segments, relative to the mount point of the router.
\<close>

fun segment_matches :: "segment \<Rightarrow> string \<Rightarrow> bool" where
  "segment_matches (Lit l) s = (map lower l = map lower s)"
| "segment_matches (Param _) s = (s \<noteq> [])"

definition path_matches :: "segment list \<Rightarrow> string list \<Rightarrow> bool" where
  "path_matches pat p = list_all2 segment_matches pat p"

definition dispatch :: "http_method \<Rightarrow> string list \<Rightarrow> middleware list option" where
  "dispatch m p =
     map_option chain (find (\<lambda>r. route_method r = m \<and> path_matches (route_path r) p) router)"

text \<open>
  Whether \<open>verifyJWT\<close> stands in a chain before the controller function \<open>h\<close>.
\<close>

definition verified_before :: "controller_fn \<Rightarrow> middleware list \<Rightarrow> bool" where
  "verified_before h c = (VerifyJWT \<in> set (takeWhile (\<lambda>x. x \<noteq> Controller h) c))"

text \<open>
  The column \<open>Auth\<close> of the specification's interface table, by the operation of each
  row.
\<close>

fun auth_required :: "controller_fn \<Rightarrow> bool" where
  "auth_required GetTeamById = False"
| "auth_required GetTeamsByHackathon = False"
| "auth_required _ = True"

section \<open>The team service\<close>

text \<open>
  Modelled from the spec: the team service (\<open>createTeam\<close>, \<open>joinTeam\<close>, \<open>leaveTeam\<close>,
  \<open>removeMember\<close>, \<open>transferLeadership\<close>, \<open>updateTeamInfo\<close>). The routes import these
  functions from \<open>teams.controller.js\<close>, which is not among the sources; every definition
  of this section follows sections 3, 4.1 and 7 of the specification. A store holds the
  team rows and the membership rows. The timestamps of a team are left out.
\<close>

datatype team_error =
  ValidationError | NotFoundError | ConflictError | ForbiddenError | CapacityError
  | LeadershipRequiredError | InternalError

record team =
  team_id :: string
  hackathonId :: string
  name :: string
  description :: string
  leaderId :: string
  maxMembers :: int

record membership =
  member_team :: string
  member_user :: string
  joinedAt :: nat

record team_store =
  teams :: "team list"
  memberships :: "membership list"

definition find_team :: "team_store \<Rightarrow> string \<Rightarrow> team option" where
  "find_team s tid = find (\<lambda>t. team_id t = tid) (teams s)"

definition memberCount :: "team_store \<Rightarrow> string \<Rightarrow> nat" where
  "memberCount s tid = length (filter (\<lambda>m. member_team m = tid) (memberships s))"

definition is_member :: "team_store \<Rightarrow> string \<Rightarrow> string \<Rightarrow> bool" where
  "is_member s tid uid =
     list_ex (\<lambda>m. member_team m = tid \<and> member_user m = uid) (memberships s)"

definition roster :: "team_store \<Rightarrow> string \<Rightarrow> string list" where
  "roster s tid = map member_user (filter (\<lambda>m. member_team m = tid) (memberships s))"

definition remove_membership :: "string \<Rightarrow> string \<Rightarrow> team_store \<Rightarrow> team_store" where
  "remove_membership tid uid s =
     s\<lparr>memberships :=
         filter (\<lambda>m. \<not> (member_team m = tid \<and> member_user m = uid)) (memberships s)\<rparr>"

definition update_team :: "string \<Rightarrow> (team \<Rightarrow> team) \<Rightarrow> team_store \<Rightarrow> team_store" where
  "update_team tid f s = s\<lparr>teams := map (\<lambda>t. if team_id t = tid then f t else t) (teams s)\<rparr>"

definition delete_team :: "string \<Rightarrow> team_store \<Rightarrow> team_store" where
  "delete_team tid s =
     \<lparr>teams = filter (\<lambda>t. team_id t \<noteq> tid) (teams s),
      memberships = filter (\<lambda>m. member_team m \<noteq> tid) (memberships s)\<rparr>"

text \<open>
  Modelled from the spec: \<open>createTeam\<close> makes a new team with the creator as leader and
  first member; it fails with \<open>ValidationError\<close> if \<open>maxMembers < 1\<close> or the name is empty,
  and with \<open>ConflictError\<close> if the creator already leads or has joined a team of that
  hackathon. \<open>newId\<close> is the identifier generated for the team and \<open>now\<close> the time of the
  call; an identifier that a team already has is a failure of the store.
\<close>

definition in_hackathon :: "team_store \<Rightarrow> string \<Rightarrow> string \<Rightarrow> bool" where
  "in_hackathon s h uid =
     list_ex (\<lambda>t. hackathonId t = h \<and> (leaderId t = uid \<or> is_member s (team_id t) uid)) (teams s)"

definition createTeam ::
  "team_store \<Rightarrow> string \<Rightarrow> nat \<Rightarrow> string \<Rightarrow> string \<Rightarrow> string \<Rightarrow> string \<Rightarrow> int
     \<Rightarrow> team_error + team_store \<times> team" where
  "createTeam s newId now h creatorId nm descr maxM =
     (if maxM < 1 \<or> nm = [] then Inl ValidationError
      else if in_hackathon s h creatorId then Inl ConflictError
      else if find_team s newId \<noteq> None then Inl InternalError
      else
        let t = \<lparr>team_id = newId, hackathonId = h, name = nm, description = descr,
                 leaderId = creatorId, maxMembers = maxM\<rparr>
        in Inr (\<lparr>teams = teams s @ [t],
                 memberships = memberships s
                   @ [\<lparr>member_team = newId, member_user = creatorId, joinedAt = now\<rparr>]\<rparr>, t))"

text \<open>
  Modelled from the spec: \<open>joinTeam\<close> fails with \<open>NotFoundError\<close> if the team is absent,
  with \<open>CapacityError\<close> if the current member count is at least \<open>maxMembers\<close>, with
  \<open>ConflictError\<close> if the user is already a member; otherwise it inserts the membership
  and returns the updated roster.
\<close>

definition joinTeam ::
  "team_store \<Rightarrow> nat \<Rightarrow> string \<Rightarrow> string \<Rightarrow> team_error + team_store \<times> string list" where
  "joinTeam s now tid uid =
     (case find_team s tid of
        None \<Rightarrow> Inl NotFoundError
      | Some t \<Rightarrow>
          if maxMembers t \<le> int (memberCount s tid) then Inl CapacityError
          else if is_member s tid uid then Inl ConflictError
          else
            let s' = s\<lparr>memberships := memberships s
                        @ [\<lparr>member_team = tid, member_user = uid, joinedAt = now\<rparr>]\<rparr>
            in Inr (s', roster s' tid))"

text \<open>
  Modelled from the spec: \<open>leaveTeam\<close> fails with \<open>NotFoundError\<close> if the membership is
  absent; the leader cannot leave while other members remain
  (\<open>LeadershipRequiredError\<close>), and when the leader is the sole member the team is deleted;
  otherwise the membership row is removed.
\<close>

definition leaveTeam :: "team_store \<Rightarrow> string \<Rightarrow> string \<Rightarrow> team_error + team_store" where
  "leaveTeam s tid uid =
     (if \<not> is_member s tid uid then Inl NotFoundError
      else
        (case find_team s tid of
           None \<Rightarrow> Inl NotFoundError
         | Some t \<Rightarrow>
             if uid = leaderId t then
               (if list_ex (\<lambda>m. member_team m = tid \<and> member_user m \<noteq> uid) (memberships s)
                then Inl LeadershipRequiredError
                else Inr (delete_team tid s))
             else Inr (remove_membership tid uid s)))"

text \<open>
  Modelled from the spec: \<open>removeMember\<close> is for the leader only and never removes the
  leader (\<open>ForbiddenError\<close>); it fails with \<open>NotFoundError\<close> if the target is not a
  member.
\<close>

definition removeMember ::
  "team_store \<Rightarrow> string \<Rightarrow> string \<Rightarrow> string \<Rightarrow> team_error + team_store" where
  "removeMember s tid actorId target =
     (case find_team s tid of
        None \<Rightarrow> Inl NotFoundError
      | Some t \<Rightarrow>
          if actorId \<noteq> leaderId t then Inl ForbiddenError
          else if target = leaderId t then Inl ForbiddenError
          else if \<not> is_member s tid target then Inl NotFoundError
          else Inr (remove_membership tid target s))"

text \<open>
  Modelled from the spec: \<open>transferLeadership\<close> requires the actor to be the leader
  (\<open>ForbiddenError\<close>) and the new leader to be a member (\<open>NotFoundError\<close>), and then
  updates \<open>leaderId\<close>.
\<close>

definition transferLeadership ::
  "team_store \<Rightarrow> string \<Rightarrow> string \<Rightarrow> string \<Rightarrow> team_error + team_store" where
  "transferLeadership s tid actorId newLeaderId =
     (case find_team s tid of
        None \<Rightarrow> Inl NotFoundError
      | Some t \<Rightarrow>
          if actorId \<noteq> leaderId t then Inl ForbiddenError
          else if \<not> is_member s tid newLeaderId then Inl NotFoundError
          else Inr (update_team tid (\<lambda>t. t\<lparr>leaderId := newLeaderId\<rparr>) s))"

text \<open>
  Modelled from the spec: \<open>updateTeamInfo\<close> requires the actor to be the leader and applies
  a partial update to \<open>name\<close>, \<open>description\<close> and \<open>maxMembers\<close>; it fails with
  \<open>CapacityError\<close> if the new \<open>maxMembers\<close> is below the current member count. Each of
  the three fields is given or left out.
\<close>

record team_fields =
  new_name :: "string option"
  new_description :: "string option"
  new_maxMembers :: "int option"

definition apply_fields :: "team_fields \<Rightarrow> team \<Rightarrow> team" where
  "apply_fields f t =
     t\<lparr>name := (case new_name f of None \<Rightarrow> name t | Some n \<Rightarrow> n),
       description := (case new_description f of None \<Rightarrow> description t | Some d \<Rightarrow> d),
       maxMembers := (case new_maxMembers f of None \<Rightarrow> maxMembers t | Some k \<Rightarrow> k)\<rparr>"

definition updateTeamInfo ::
  "team_store \<Rightarrow> string \<Rightarrow> string \<Rightarrow> team_fields \<Rightarrow> team_error + team_store" where
  "updateTeamInfo s tid actorId f =
     (case find_team s tid of
        None \<Rightarrow> Inl NotFoundError
      | Some t \<Rightarrow>
          if actorId \<noteq> leaderId t then Inl ForbiddenError
          else if (case new_maxMembers f of None \<Rightarrow> False | Some k \<Rightarrow> k < int (memberCount s tid))
          then Inl CapacityError
          else Inr (update_team tid (apply_fields f) s))"

text \<open>
  A request to the service, and a run of requests: a request that fails leaves the store
  as it was.
\<close>

datatype team_op =
  CreateOp string nat string string string string int
  | JoinOp nat string string
  | LeaveOp string string
  | RemoveOp string string string
  | TransferOp string string string
  | UpdateOp string string team_fields

fun step :: "team_store \<Rightarrow> team_op \<Rightarrow> team_error + team_store" where
  "step s (CreateOp newId now h creatorId nm descr maxM) =
     map_sum (\<lambda>e. e) fst (createTeam s newId now h creatorId nm descr maxM)"
| "step s (JoinOp now tid uid) = map_sum (\<lambda>e. e) fst (joinTeam s now tid uid)"
| "step s (LeaveOp tid uid) = leaveTeam s tid uid"
| "step s (RemoveOp tid actorId target) = removeMember s tid actorId target"
| "step s (TransferOp tid actorId newLeaderId) = transferLeadership s tid actorId newLeaderId"
| "step s (UpdateOp tid actorId f) = updateTeamInfo s tid actorId f"

definition apply_op :: "team_store \<Rightarrow> team_op \<Rightarrow> team_store" where
  "apply_op s op = (case step s op of Inl _ \<Rightarrow> s | Inr s' \<Rightarrow> s')"

definition run_ops :: "team_store \<Rightarrow> team_op list \<Rightarrow> team_store" where
  "run_ops s ops = foldl apply_op s ops"

text \<open>
  The invariants: no team has more membership rows than \<open>maxMembers\<close>, and every
  membership row belongs to a team of the store.
\<close>

definition capacity_ok :: "team_store \<Rightarrow> bool" where
  "capacity_ok s = list_all (\<lambda>t. int (memberCount s (team_id t)) \<le> maxMembers t) (teams s)"

definition refs_ok :: "team_store \<Rightarrow> bool" where
  "refs_ok s = list_all (\<lambda>m. find_team s (member_team m) \<noteq> None) (memberships s)"

text \<open>Team identifiers are unique, as the store guarantees for a primary key.\<close>

definition ids_ok :: "team_store \<Rightarrow> bool" where
  "ids_ok s = distinct (map team_id (teams s))"

definition store_ok :: "team_store \<Rightarrow> bool" where
  "store_ok s = (capacity_ok s \<and> refs_ok s \<and> ids_ok s)"

definition empty_store :: team_store where
  "empty_store = \<lparr>teams = [], memberships = []\<rparr>"

section \<open>Example rows\<close>

definition alice_id :: string where
  "alice_id = ''3f2b8c1e-5d47-4a90-9c3e-0b7a61d2e001''"

definition bob_id :: string where
  "bob_id = ''3f2b8c1e-5d47-4a90-9c3e-0b7a61d2e002''"

definition alice :: user where
  "alice = \<lparr>user_id = alice_id, email = ''alice@example.org'', fullName = ''Alice Moss'',
     userName = Some ''amoss'', password = ''h1'', avatarUrl = Some ''avatar'', bio = Some ''--'',
     isVerified = True, code = ''1111'', expiresAt = 50, createdAt = 1, updatedAt = 1,
     role = JNull, location = JStr ''Oslo'', skills = JStr ''sql'', interests = JNull,
     socialLinks = JStr ''https://example.org/alice''\<rparr>"

definition bob :: user where
  "bob = \<lparr>user_id = bob_id, email = ''bob@example.org'', fullName = ''Bob Salib'',
     userName = None, password = ''h2'', avatarUrl = None, bio = Some ''plays go'',
     isVerified = False, code = ''2222'', expiresAt = 60, createdAt = 2, updatedAt = 2,
     role = JStr ''USER'', location = JNull, skills = JNull, interests = JNull,
     socialLinks = JNull\<rparr>"

definition example_ops :: "team_op list" where
  "example_ops =
     [CreateOp ''t1'' 1 ''h1'' ''ann'' ''Parsers'' ''a team'' 2,
      JoinOp 2 ''t1'' ''ben'',
      JoinOp 3 ''t1'' ''cy'']"

definition full_store :: team_store where
  "full_store =
     \<lparr>teams = [\<lparr>team_id = ''t1'', hackathonId = ''h1'', name = ''Parsers'',
                 description = ''a team'', leaderId = ''ann'', maxMembers = 2\<rparr>],
      memberships = [\<lparr>member_team = ''t1'', member_user = ''ann'', joinedAt = 1\<rparr>,
                     \<lparr>member_team = ''t1'', member_user = ''ben'', joinedAt = 2\<rparr>]\<rparr>"

definition alice_reset :: user where
  "alice_reset = alice\<lparr>password := ''h9'', code := ''9999'', expiresAt := 70, isVerified := False\<rparr>"

section \<open>Properties of searchUsers\<close>

subsection \<open>Matching\<close>








subsection \<open>Limit and order\<close>





subsection \<open>Evaluation on the example rows\<close>













subsection \<open>Results and validation\<close>




text \<open>
  C3. \<open>searchUsers\<close> fails with status 400 exactly when the query is absent or has fewer
  than two characters once trimmed; in that case the result is the error and carries no
  rows.
\<close>

theorem searchUsers_validation:
  "((\<exists>msg. searchUsers coll db q limit = Inl (ApiError 400 msg)) \<longleftrightarrow> query_too_short q)
   \<and> (query_too_short q \<longrightarrow>
        searchUsers coll db q limit =
          Inl (ApiError 400 ''Search query must be at least 2 characters''))"
  by (cases q) (auto simp: searchUsers_def query_too_short_def Let_def trim_def)

theorem searchUsers_validation_witness:
  "query_too_short (Some '' a  '')
   \<and> searchUsers byte_order [bob, alice] (Some '' a  '') (Some ''5'') =
       Inl (ApiError 400 ''Search query must be at least 2 characters'')
   \<and> \<not> query_too_short (Some ''al'')
   \<and> (\<nexists>msg. searchUsers byte_order [bob, alice] (Some ''al'') (Some ''5'') =
         Inl (ApiError 400 msg))"
proof -
  have a: "query_too_short (Some '' a  '')"
    by (simp add: query_too_short_def trim_def is_ws_def)
  have b: "\<not> query_too_short (Some ''al'')"
    by (simp add: query_too_short_def trim_def is_ws_def)
  from searchUsers_validation [of byte_order "[bob, alice]" "Some '' a  ''" "Some ''5''"]
    searchUsers_validation [of byte_order "[bob, alice]" "Some ''al''" "Some ''5''"] a b
  show ?thesis by simp
qed

section \<open>Properties of the profile handlers\<close>

lemma find_user_update:
  assumes keep: "\<And>u. user_id (f u) = user_id u"
  shows "find_user (update_where (\<lambda>u. user_id u = k) f db) uid =
           (if uid = k then map_option f (find_user db uid) else find_user db uid)"
  by (induction db) (auto simp: find_user_def update_where_def keep)

lemma ids_differ: "alice_id \<noteq> bob_id" "bob_id \<noteq> alice_id" "alice_id \<noteq> []" "bob_id \<noteq> []"
  by (simp_all add: alice_id_def bob_id_def)

lemma example_ids: "user_id alice = alice_id" "user_id bob = bob_id"
  by (simp_all add: alice_def bob_def)


lemma find_alice: "find_user [bob, alice] alice_id = Some alice"
  by (simp add: find_user_def example_ids ids_differ)


subsection \<open>uploadProfileImage\<close>

text \<open>
  C5. Let \<open>uploadProfileImage\<close> be called for the user \<open>k\<close> with a file. When the storage
  call fails, the handler fails with the \<open>ApiError\<close> of status 500 (\<open>UpstreamError\<close>) and the
  table is unchanged, so every \<open>avatarUrl\<close> is. When the storage call returns a URL, the
  handler answers with status 200 and that URL, the row of \<open>k\<close> is the old row with
  \<open>avatarUrl\<close> set to the URL, and the row of every other user is unchanged.
\<close>

theorem uploadProfileImage_storage:
  "(cloud buf (image_options k now) = None \<longrightarrow>
      uploadProfileImage cloud now db k (Some buf) =
        (Inl (ApiError 500 ''Cloudinary upload failed''), db))
   \<and> (\<forall>url. cloud buf (image_options k now) = Some url \<longrightarrow>
         fst (uploadProfileImage cloud now db k (Some buf)) =
           Inr (ApiResponse 200 [(''avatarUrl'', JStr url)] ''Profile image updated'')
         \<and> find_user (snd (uploadProfileImage cloud now db k (Some buf))) k =
             map_option (\<lambda>u. u\<lparr>avatarUrl := Some url\<rparr>) (find_user db k)
         \<and> (\<forall>uid. uid \<noteq> k \<longrightarrow>
               find_user (snd (uploadProfileImage cloud now db k (Some buf))) uid =
                 find_user db uid))"
  by (auto simp: uploadProfileImage_def find_user_update)

theorem uploadProfileImage_storage_witness:
  "uploadProfileImage (\<lambda>buf opts. None) 7 [bob, alice] alice_id (Some ''png'') =
     (Inl (ApiError 500 ''Cloudinary upload failed''), [bob, alice])
   \<and> fst (uploadProfileImage (\<lambda>buf opts. Some ''https://cdn.example/a.png'') 7
            [bob, alice] alice_id (Some ''png'')) =
       Inr (ApiResponse 200 [(''avatarUrl'', JStr ''https://cdn.example/a.png'')]
              ''Profile image updated'')
   \<and> find_user (snd (uploadProfileImage (\<lambda>buf opts. Some ''https://cdn.example/a.png'') 7
            [bob, alice] alice_id (Some ''png''))) alice_id =
       Some (alice\<lparr>avatarUrl := Some ''https://cdn.example/a.png''\<rparr>)
   \<and> find_user (snd (uploadProfileImage (\<lambda>buf opts. Some ''https://cdn.example/a.png'') 7
            [bob, alice] alice_id (Some ''png''))) bob_id = Some bob"
proof -
  have bob: "find_user [bob, alice] bob_id = Some bob"
    by (simp add: find_user_def example_ids ids_differ)
  from uploadProfileImage_storage [of "\<lambda>buf opts. None" "''png''" alice_id 7 "[bob, alice]"]
    uploadProfileImage_storage [of "\<lambda>buf opts. Some ''https://cdn.example/a.png''"
      "''png''" alice_id 7 "[bob, alice]"]
  show ?thesis by (simp add: find_alice bob ids_differ)
qed

subsection \<open>updateUserProfile\<close>

lemma profile_set_frame:
  "untouched (profile_set now b u) = untouched u \<and> user_id (profile_set now b u) = user_id u"
  by (simp add: profile_set_def untouched_def)

text \<open>
  C9. Whatever the request body holds, and whether \<open>updateUserProfile\<close> succeeds or fails,
  every row of the table keeps its \<open>email\<close>, \<open>password\<close>, \<open>avatarUrl\<close>, \<open>isVerified\<close>,
  \<open>code\<close> and \<open>expiresAt\<close> (and its \<open>id\<close>).
\<close>

theorem updateUserProfile_frame:
  "map untouched (snd (updateUserProfile now db k b)) = map untouched db
   \<and> map user_id (snd (updateUserProfile now db k b)) = map user_id db"
  by (simp add: updateUserProfile_def update_where_def profile_set_frame split: list.splits)


theorem updateUserProfile_frame_witness:
  "map untouched (snd (updateUserProfile 99 [bob, alice] alice_id
      [''email'' \<mapsto> JStr ''eve@example.org'', ''password'' \<mapsto> JStr ''pw'',
       ''firstName'' \<mapsto> JStr ''Eve''])) = [untouched bob, untouched alice]
   \<and> map user_id (snd (updateUserProfile 99 [bob, alice] alice_id
      [''email'' \<mapsto> JStr ''eve@example.org'', ''password'' \<mapsto> JStr ''pw'',
       ''firstName'' \<mapsto> JStr ''Eve''])) = [bob_id, alice_id]"
  using updateUserProfile_frame [of 99 "[bob, alice]" alice_id
      "[''email'' \<mapsto> JStr ''eve@example.org'', ''password'' \<mapsto> JStr ''pw'',
        ''firstName'' \<mapsto> JStr ''Eve'']"]
  by (simp add: example_ids)





lemma profile_set_omitted:
  "b ''userName'' = None \<Longrightarrow> userName (profile_set now b u) = userName u"
  "b ''bio'' = None \<Longrightarrow> bio (profile_set now b u) = bio u"
  "b ''skills'' = None \<Longrightarrow> skills (profile_set now b u) = skills u"
  "b ''interests'' = None \<Longrightarrow> interests (profile_set now b u) = interests u"
  "b ''socialLinks'' = None \<Longrightarrow> socialLinks (profile_set now b u) = socialLinks u"
  "b ''location'' = None \<Longrightarrow> location (profile_set now b u) = location u"
  by (simp_all add: profile_set_def set_text_def set_json_def)


subsection \<open>Reading a profile\<close>

lemma by_username_all_defined: "\<not> list_ex (\<lambda>(k, c). c = None) by_username_fields"
  by (simp add: by_username_fields_def)

lemma getUserProfileByUsername_missing:
  "falsy n \<Longrightarrow>
     getUserProfileByUsername strict db n =
       Inl (ApiError 400 ''Username query parameter is required'')"
  by (auto simp: getUserProfileByUsername_def falsy_def split: option.splits)

lemma getUserProfileByUsername_unknown:
  assumes "n \<noteq> []" and "\<forall>u\<in>set db. userName u \<noteq> Some n"
  shows "getUserProfileByUsername strict db (Some n) = Inl (ApiError 404 ''User not found'')"
proof -
  from assms(2) have "filter (\<lambda>u. userName u = Some n) db = []"
    by (simp add: filter_empty_conv)
  with assms(1) show ?thesis
    by (simp add: getUserProfileByUsername_def select_rows_def by_username_all_defined)
qed







subsection \<open>The role of a user\<close>

text \<open>
  C7 on the table declaration: \<open>usersTable\<close> declares no column for \<open>role\<close>, so a new row
  gets no role and no default \<open>USER\<close>, whereas a declared default such as that of \<open>bio\<close> is
  found.
\<close>

theorem usersTable_declares_no_role:
  "map_of usersTable ''role'' = None
   \<and> default_of ''role'' = None
   \<and> default_of ''bio'' = Some (DefaultText ''--'')"
  by (simp add: default_of_def usersTable_def)

lemma updateUserRole_absent:
  "find_user db k = None \<Longrightarrow>
     updateUserRole now db k b = (Inl (ApiError 404 ''User not found''), db)"
  by (simp add: updateUserRole_def find_user_def find_None_iff filter_empty_conv)

lemma updateUserRole_overwrites:
  assumes "b ''role'' = Some r"
  shows "find_user (snd (updateUserRole now db k b)) k =
           map_option (\<lambda>u. u\<lparr>role := r, updatedAt := now\<rparr>) (find_user db k)"
proof (cases "filter (\<lambda>u. user_id u = k) db")
  case Nil
  then have "find_user db k = None"
    by (simp add: find_user_def find_None_iff filter_empty_conv)
  then show ?thesis by (simp add: updateUserRole_absent)
next
  case (Cons u us)
  have "role_set now b = (\<lambda>u. u\<lparr>role := r, updatedAt := now\<rparr>)"
    by (rule ext) (simp add: role_set_def set_json_def assms)
  with Cons show ?thesis
    by (simp add: updateUserRole_def find_user_update)
qed

subsection \<open>What the reads depend on\<close>

lemma same_public_fields:
  assumes "same_public u v"
  shows "user_id v = user_id u" "email v = email u" "fullName v = fullName u"
    "userName v = userName u" "avatarUrl v = avatarUrl u" "bio v = bio u"
    "location v = location u" "skills v = skills u" "interests v = interests u"
    "socialLinks v = socialLinks u"
proof -
  from assms have v: "v = u\<lparr>password := password v, code := code v, expiresAt := expiresAt v,
            isVerified := isVerified v\<rparr>" by (simp add: same_public_def)
  show "user_id v = user_id u" by (subst v) simp
  show "email v = email u" by (subst v) simp
  show "fullName v = fullName u" by (subst v) simp
  show "userName v = userName u" by (subst v) simp
  show "avatarUrl v = avatarUrl u" by (subst v) simp
  show "bio v = bio u" by (subst v) simp
  show "location v = location u" by (subst v) simp
  show "skills v = skills u" by (subst v) simp
  show "interests v = interests u" by (subst v) simp
  show "socialLinks v = socialLinks u" by (subst v) simp
qed

lemma filter_same:
  assumes "list_all2 R xs ys" and "\<And>x y. R x y \<Longrightarrow> P x = P y"
  shows "list_all2 R (filter P xs) (filter P ys)"
  using assms by (induction rule: list_all2_induct) auto

lemma insort_same:
  assumes "list_all2 R xs ys" and "R x y" and "\<And>x y. R x y \<Longrightarrow> f x = f y"
  shows "list_all2 R (insort_key f x xs) (insort_key f y ys)"
  using assms(1)
proof (induction rule: list_all2_induct)
  case Nil
  then show ?case using assms(2) by simp
next
  case (Cons a xs b ys)
  then show ?case using assms(2) assms(3) [of a b] assms(3) [of x y] by simp
qed

lemma sort_same:
  assumes "list_all2 R xs ys" and "\<And>x y. R x y \<Longrightarrow> f x = f y"
  shows "list_all2 R (sort_key f xs) (sort_key f ys)"
  using assms(1)
proof (induction rule: list_all2_induct)
  case Nil
  then show ?case by simp
next
  case (Cons a xs b ys)
  then show ?case using insort_same [of R _ _ a b f] assms(2) by simp
qed

lemma limit_same: "list_all2 R xs ys \<Longrightarrow> list_all2 R (limit_rows n xs) (limit_rows n ys)"
  by (auto simp: limit_rows_def split: option.splits intro: list_all2_takeI)

lemma map_same:
  assumes "list_all2 R xs ys" and "\<And>x y. R x y \<Longrightarrow> f x = f y"
  shows "map f xs = map f ys"
  using assms by (induction rule: list_all2_induct) auto

lemma select_search_same: "same_public u v \<Longrightarrow> select_row search_fields u = select_row search_fields v"
  by (simp add: select_row_def search_fields_def same_public_fields
      col_id_def col_fullName_def col_userName_def col_email_def col_avatarUrl_def col_bio_def)

lemma select_by_id_same: "same_public u v \<Longrightarrow> select_row by_id_fields u = select_row by_id_fields v"
  by (simp add: select_row_def by_id_fields_def same_public_fields
      col_id_def col_fullName_def col_userName_def col_avatarUrl_def col_bio_def)

lemma select_by_username_same:
  "same_public u v \<Longrightarrow> select_row by_username_fields u = select_row by_username_fields v"
  by (simp add: select_row_def by_username_fields_def same_public_fields
      col_id_def col_fullName_def col_userName_def col_avatarUrl_def col_bio_def)

lemma search_where_same: "same_public u v \<Longrightarrow> search_where t u = search_where t v"
  by (simp add: search_where_def same_public_fields)

lemma searchUsers_same:
  assumes "list_all2 same_public db1 db2"
  shows "searchUsers coll db1 q l = searchUsers coll db2 q l"
proof -
  have "map (select_row search_fields) (search_query coll db1 t n) =
        map (select_row search_fields) (search_query coll db2 t n)" for t n
    unfolding search_query_def
    by (intro map_same [where R = same_public] limit_same sort_same filter_same assms)
      (simp_all add: select_search_same search_where_same same_public_fields)
  then show ?thesis by (simp add: searchUsers_def Let_def split: option.splits)
qed

lemma select_rows_same:
  assumes "list_all2 same_public xs ys"
    and "\<And>u v. same_public u v \<Longrightarrow> select_row sel u = select_row sel v"
  shows "select_rows strict sel xs = select_rows strict sel ys"
  using map_same [OF assms] by (simp add: select_rows_def)

lemma getUserProfile_same:
  assumes "list_all2 same_public db1 db2"
  shows "getUserProfile strict db1 k = getUserProfile strict db2 k"
proof -
  have "select_rows strict by_id_fields (take 1 (filter (\<lambda>u. user_id u = uid) db1)) =
        select_rows strict by_id_fields (take 1 (filter (\<lambda>u. user_id u = uid) db2))" for uid
    by (intro select_rows_same list_all2_takeI filter_same assms)
      (simp_all add: select_by_id_same same_public_fields)
  then show ?thesis by (simp add: getUserProfile_def split: option.splits)
qed

lemma getUserProfileByUsername_same:
  assumes "list_all2 same_public db1 db2"
  shows "getUserProfileByUsername strict db1 k = getUserProfileByUsername strict db2 k"
proof -
  have "select_rows strict by_username_fields (take 1 (filter (\<lambda>u. userName u = Some n) db1)) =
        select_rows strict by_username_fields (take 1 (filter (\<lambda>u. userName u = Some n) db2))" for n
    by (intro select_rows_same list_all2_takeI filter_same assms)
      (simp_all add: select_by_username_same same_public_fields)
  then show ?thesis by (simp add: getUserProfileByUsername_def split: option.splits)
qed

lemma no_secret_keys:
  "fst ` set by_id_fields \<inter> set secret_keys = {}"
  "fst ` set by_username_fields \<inter> set secret_keys = {}"
  "fst ` set search_fields \<inter> set secret_keys = {}"
  by (simp_all add: by_id_fields_def by_username_fields_def search_fields_def secret_keys_def)

lemma select_row_keys: "fst ` set (select_row sel u) \<subseteq> fst ` set sel"
proof
  fix k
  assume "k \<in> fst ` set (select_row sel u)"
  then obtain v where "(k, v) \<in> set (select_row sel u)"
    by auto
  then obtain c where "(k, c) \<in> set sel"
    by (auto simp: select_row_def split: option.splits)
  then show "k \<in> fst ` set sel"
    by force
qed

lemma selected_keys_public:
  assumes "sel \<in> {by_id_fields, by_username_fields, search_fields}"
  shows "fst ` set (select_row sel u) \<inter> set secret_keys = {}"
proof -
  from assms no_secret_keys have "fst ` set sel \<inter> set secret_keys = {}"
    by auto
  with select_row_keys [of sel u] show ?thesis
    by blast
qed

text \<open>
  C10. If two tables differ, row by row, at most in \<open>password\<close>, \<open>code\<close>, \<open>expiresAt\<close>
  and \<open>isVerified\<close>, then \<open>getUserProfile\<close>, \<open>getUserProfileByUsername\<close> and \<open>searchUsers\<close>
  give the same result on both for every request; and no row that these handlers select
  has one of these four columns among its keys.
\<close>

theorem reads_ignore_secrets:
  assumes "list_all2 same_public db1 db2"
  shows "getUserProfile strict db1 k = getUserProfile strict db2 k
       \<and> getUserProfileByUsername strict db1 n = getUserProfileByUsername strict db2 n
       \<and> searchUsers coll db1 q l = searchUsers coll db2 q l
       \<and> (\<forall>sel\<in>{by_id_fields, by_username_fields, search_fields}. \<forall>u.
             fst ` set (select_row sel u) \<inter> set secret_keys = {})"
  using getUserProfile_same [OF assms] getUserProfileByUsername_same [OF assms]
    searchUsers_same [OF assms] selected_keys_public
  by blast

lemma alice_reset_public: "list_all2 same_public [bob, alice] [bob, alice_reset]"
  by (simp add: same_public_def alice_reset_def)

theorem reads_ignore_secrets_witness:
  "list_all2 same_public [bob, alice] [bob, alice_reset]
   \<and> password alice_reset \<noteq> password alice
   \<and> getUserProfile False [bob, alice] (Some alice_id) =
       getUserProfile False [bob, alice_reset] (Some alice_id)
   \<and> getUserProfileByUsername True [bob, alice] (Some ''amoss'') =
       getUserProfileByUsername True [bob, alice_reset] (Some ''amoss'')
   \<and> searchUsers byte_order [bob, alice] (Some ''ali'') None =
       searchUsers byte_order [bob, alice_reset] (Some ''ali'') None"
proof -
  have "password alice_reset \<noteq> password alice"
    by (simp add: alice_reset_def alice_def)
  with reads_ignore_secrets [OF alice_reset_public, where strict = False and k = "Some alice_id"
      and coll = byte_order]
    reads_ignore_secrets [OF alice_reset_public, where strict = True and n = "Some ''amoss''"
      and coll = byte_order and q = "Some ''ali''" and l = None]
    alice_reset_public
  show ?thesis by simp
qed

section \<open>Authentication on the team routes\<close>

lemma route_chains:
  "r \<in> set router \<Longrightarrow>
     \<exists>h. last (chain r) = Controller h \<and> verified_before h (chain r) = auth_required h"
  by (auto simp: router_def verified_before_def)

lemma dispatch_route:
  "dispatch m p = Some c \<Longrightarrow>
     \<exists>r\<in>set router. c = chain r \<and> route_method r = m \<and> path_matches (route_path r) p"
  by (auto simp: dispatch_def find_Some_iff)

lemma lit_self: "segment_matches (Lit l) l"
  by simp

lemma no_user_hackathon: "map lower ''hackathon'' \<noteq> map lower ''user''"
  by (simp add: lower_def)

text \<open>
  C8. With any non-empty segments \<open>t\<close> and \<open>u\<close> for the parameters, each request of the
  interface table reaches the chain of its route: create, update, join, leave, remove
  member, transfer leadership and my-teams run \<open>verifyJWT\<close> before the controller
  function, and fetching a team by id or listing the teams of a hackathon runs the
  controller function alone. Whatever request the router takes, its chain ends in a
  controller function and has \<open>verifyJWT\<close> before it exactly when the interface table
  asks for authentication.
\<close>

theorem team_routes_auth:
  assumes t: "t \<noteq> []" and u: "u \<noteq> []"
  shows "dispatch POST [] = Some [VerifyJWT, Validate createTeamSchema, Controller CreateTeam]
       \<and> dispatch GET [t] = Some [Controller GetTeamById]
       \<and> dispatch PUT [t] = Some [VerifyJWT, Validate updateTeamSchema, Controller UpdateTeamInfo]
       \<and> dispatch POST [t, ''join''] = Some [VerifyJWT, Controller JoinTeam]
       \<and> dispatch DELETE [t, ''leave''] = Some [VerifyJWT, Controller LeaveTeam]
       \<and> dispatch DELETE [t, ''members'', u] = Some [VerifyJWT, Controller RemoveMember]
       \<and> dispatch PUT [t, ''transfer'', u] = Some [VerifyJWT, Controller TransferLeadership]
       \<and> dispatch GET [''hackathon'', u] = Some [Controller GetTeamsByHackathon]
       \<and> dispatch GET [''user'', ''my-teams''] = Some [VerifyJWT, Controller GetUserTeams]
       \<and> (\<forall>m p c. dispatch m p = Some c \<longrightarrow>
             (\<exists>h. last c = Controller h \<and> verified_before h c = auth_required h))"
proof -
  have general: "\<exists>h. last c = Controller h \<and> verified_before h c = auth_required h"
    if "dispatch m p = Some c" for m p c
    using dispatch_route [OF that] route_chains by blast
  have "dispatch POST [] = Some [VerifyJWT, Validate createTeamSchema, Controller CreateTeam]"
    by (simp add: dispatch_def router_def path_matches_def)
  moreover have "dispatch GET [t] = Some [Controller GetTeamById]"
    using t by (simp add: dispatch_def router_def path_matches_def)
  moreover have "dispatch PUT [t] = Some [VerifyJWT, Validate updateTeamSchema, Controller UpdateTeamInfo]"
    using t by (simp add: dispatch_def router_def path_matches_def)
  moreover have "dispatch POST [t, ''join''] = Some [VerifyJWT, Controller JoinTeam]"
    using t by (simp add: dispatch_def router_def path_matches_def)
  moreover have "dispatch DELETE [t, ''leave''] = Some [VerifyJWT, Controller LeaveTeam]"
    using t by (simp add: dispatch_def router_def path_matches_def)
  moreover have "dispatch DELETE [t, ''members'', u] = Some [VerifyJWT, Controller RemoveMember]"
    using t u by (simp add: dispatch_def router_def path_matches_def)
  moreover have "dispatch PUT [t, ''transfer'', u] = Some [VerifyJWT, Controller TransferLeadership]"
    using t u by (simp add: dispatch_def router_def path_matches_def)
  moreover have "dispatch GET [''hackathon'', u] = Some [Controller GetTeamsByHackathon]"
    using u by (simp add: dispatch_def router_def path_matches_def)
  moreover have "dispatch GET [''user'', ''my-teams''] = Some [VerifyJWT, Controller GetUserTeams]"
    using no_user_hackathon by (simp add: dispatch_def router_def path_matches_def)
  ultimately show ?thesis using general by blast
qed

theorem team_routes_auth_witness:
  "dispatch POST [''42'', ''join''] = Some [VerifyJWT, Controller JoinTeam]
   \<and> dispatch GET [''42''] = Some [Controller GetTeamById]
   \<and> dispatch DELETE [''42'', ''members'', ''u7''] = Some [VerifyJWT, Controller RemoveMember]
   \<and> dispatch GET [''hackathon'', ''u7''] = Some [Controller GetTeamsByHackathon]
   \<and> verified_before JoinTeam [VerifyJWT, Controller JoinTeam]
   \<and> \<not> verified_before GetTeamById [Controller GetTeamById]"
proof -
  have "''42'' \<noteq> []" and "''u7'' \<noteq> []" by simp_all
  from team_routes_auth [OF this] show ?thesis by (simp add: verified_before_def)
qed

section \<open>The capacity of a team\<close>

lemma find_team_None: "find_team s tid = None \<longleftrightarrow> (\<forall>t\<in>set (teams s). team_id t \<noteq> tid)"
  by (auto simp: find_team_def find_None_iff)

lemma find_team_SomeD: "find_team s tid = Some t \<Longrightarrow> t \<in> set (teams s) \<and> team_id t = tid"
  by (auto simp: find_team_def find_Some_iff)

lemma capacity_ok_iff:
  "capacity_ok s \<longleftrightarrow> (\<forall>t\<in>set (teams s). int (memberCount s (team_id t)) \<le> maxMembers t)"
  by (simp add: capacity_ok_def list_all_iff)

lemma refs_ok_iff:
  "refs_ok s \<longleftrightarrow> (\<forall>m\<in>set (memberships s). \<exists>t\<in>set (teams s). team_id t = member_team m)"
  by (auto simp: refs_ok_def list_all_iff find_team_None)

lemma ids_ok_same:
  assumes "ids_ok s" "t \<in> set (teams s)" "t' \<in> set (teams s)" "team_id t = team_id t'"
  shows "t = t'"
  using assms by (auto simp: ids_ok_def distinct_map dest: inj_onD)

lemma unreferenced_count:
  assumes "refs_ok s" "find_team s tid = None"
  shows "memberCount s tid = 0"
  using assms by (auto simp: refs_ok_iff find_team_None memberCount_def filter_empty_conv)

lemma memberCount_added:
  "memberCount \<lparr>teams = ts, memberships = memberships s @ [m]\<rparr> x =
     memberCount s x + (if member_team m = x then 1 else 0)"
  by (simp add: memberCount_def)

lemma createTeam_ok:
  assumes ok: "store_ok s" and run: "createTeam s newId now h creatorId nm descr maxM = Inr (s', t)"
  shows "store_ok s'"
proof -
  define m where "m = \<lparr>member_team = newId, member_user = creatorId, joinedAt = now\<rparr>"
  from run have pos: "1 \<le> maxM" and fresh: "find_team s newId = None"
    and s': "s' = \<lparr>teams = teams s @ [t], memberships = memberships s @ [m]\<rparr>"
    and t: "team_id t = newId" "maxMembers t = maxM"
    by (auto simp: createTeam_def Let_def m_def split: if_splits)
  from ok have cap: "capacity_ok s" and refs: "refs_ok s" and ids: "ids_ok s"
    by (simp_all add: store_ok_def)
  have m: "member_team m = newId"
    by (simp add: m_def)
  have zero: "memberCount s newId = 0"
    using unreferenced_count [OF refs fresh] .
  have old: "team_id t0 \<noteq> newId" if "t0 \<in> set (teams s)" for t0
    using fresh that by (simp add: find_team_None)
  have "int (memberCount s' (team_id t0)) \<le> maxMembers t0" if "t0 \<in> set (teams s')" for t0
  proof (cases "t0 = t")
    case True
    then show ?thesis using zero pos t m by (simp add: s' memberCount_added)
  next
    case False
    with that have in_s: "t0 \<in> set (teams s)" by (simp add: s')
    from cap in_s have "int (memberCount s (team_id t0)) \<le> maxMembers t0"
      by (simp add: capacity_ok_iff)
    with old [OF in_s] m show ?thesis by (simp add: s' memberCount_added)
  qed
  then have "capacity_ok s'" by (simp add: capacity_ok_iff)
  moreover have "refs_ok s'"
    using refs t m unfolding refs_ok_iff s' by auto
  moreover have "ids_ok s'"
  proof -
    have "newId \<notin> set (map team_id (teams s))"
      using old by auto
    with ids t show ?thesis by (simp add: ids_ok_def s')
  qed
  ultimately show ?thesis by (simp add: store_ok_def)
qed

lemma joinTeam_ok:
  assumes ok: "store_ok s" and run: "joinTeam s now tid uid = Inr (s', r)"
  shows "store_ok s'"
proof -
  define m where "m = \<lparr>member_team = tid, member_user = uid, joinedAt = now\<rparr>"
  from run obtain t where found: "find_team s tid = Some t"
    and room: "int (memberCount s tid) < maxMembers t"
    and s': "s' = \<lparr>teams = teams s, memberships = memberships s @ [m]\<rparr>"
    by (auto simp: joinTeam_def Let_def m_def split: option.splits if_splits)
  from ok have cap: "capacity_ok s" and refs: "refs_ok s" and ids: "ids_ok s"
    by (simp_all add: store_ok_def)
  have m: "member_team m = tid"
    by (simp add: m_def)
  have t: "t \<in> set (teams s)" "team_id t = tid"
    using find_team_SomeD [OF found] by simp_all
  have "int (memberCount s' (team_id t0)) \<le> maxMembers t0" if "t0 \<in> set (teams s')" for t0
  proof (cases "team_id t0 = tid")
    case True
    from that have "t0 \<in> set (teams s)" by (simp add: s')
    from ids_ok_same [OF ids this t(1)] True t(2) have "t0 = t" by simp
    with room t m show ?thesis by (simp add: s' memberCount_added)
  next
    case False
    from that have "t0 \<in> set (teams s)" by (simp add: s')
    with cap have "int (memberCount s (team_id t0)) \<le> maxMembers t0"
      by (simp add: capacity_ok_iff)
    with False m show ?thesis by (simp add: s' memberCount_added)
  qed
  then have "capacity_ok s'" by (simp add: capacity_ok_iff)
  moreover have "refs_ok s'"
    using refs t m unfolding refs_ok_iff s' by auto
  moreover have "ids_ok s'"
    using ids by (simp add: ids_ok_def s')
  ultimately show ?thesis by (simp add: store_ok_def)
qed

lemma length_filter_conj_le: "length (filter (\<lambda>x. Q x \<and> P x) xs) \<le> length (filter P xs)"
  by (induction xs) auto

lemma remove_membership_ok:
  assumes ok: "store_ok s"
  shows "store_ok (remove_membership tid uid s)"
proof -
  let ?s' = "remove_membership tid uid s"
  from ok have cap: "capacity_ok s" and refs: "refs_ok s" and ids: "ids_ok s"
    by (simp_all add: store_ok_def)
  have ts: "teams ?s' = teams s"
    by (simp add: remove_membership_def)
  have le: "memberCount ?s' x \<le> memberCount s x" for x
    by (simp add: memberCount_def remove_membership_def length_filter_conj_le)
  have "int (memberCount ?s' (team_id t0)) \<le> maxMembers t0" if "t0 \<in> set (teams ?s')" for t0
  proof -
    from that cap have "int (memberCount s (team_id t0)) \<le> maxMembers t0"
      by (simp add: capacity_ok_iff ts)
    with le [of "team_id t0"] show ?thesis by linarith
  qed
  then have "capacity_ok ?s'" by (simp add: capacity_ok_iff)
  moreover have "refs_ok ?s'"
    using refs unfolding refs_ok_iff ts by (simp add: remove_membership_def)
  moreover have "ids_ok ?s'"
    using ids by (simp add: ids_ok_def ts)
  ultimately show ?thesis by (simp add: store_ok_def)
qed

lemma delete_team_ok:
  assumes ok: "store_ok s"
  shows "store_ok (delete_team tid s)"
proof -
  let ?s' = "delete_team tid s"
  from ok have cap: "capacity_ok s" and refs: "refs_ok s" and ids: "ids_ok s"
    by (simp_all add: store_ok_def)
  have ts: "teams ?s' = filter (\<lambda>t. team_id t \<noteq> tid) (teams s)"
    by (simp add: delete_team_def)
  have ms: "memberships ?s' = filter (\<lambda>m. member_team m \<noteq> tid) (memberships s)"
    by (simp add: delete_team_def)
  have le: "memberCount ?s' x \<le> memberCount s x" for x
    by (simp add: memberCount_def ms length_filter_conj_le)
  have "int (memberCount ?s' (team_id t0)) \<le> maxMembers t0" if "t0 \<in> set (teams ?s')" for t0
  proof -
    from that cap have "int (memberCount s (team_id t0)) \<le> maxMembers t0"
      by (simp add: capacity_ok_iff ts)
    with le [of "team_id t0"] show ?thesis by linarith
  qed
  then have "capacity_ok ?s'" by (simp add: capacity_ok_iff)
  moreover have "refs_ok ?s'"
    using refs unfolding refs_ok_iff ts ms by fastforce
  moreover have "ids_ok ?s'"
    using ids by (simp add: ids_ok_def ts distinct_map_filter)
  ultimately show ?thesis by (simp add: store_ok_def)
qed

lemma update_team_ok:
  assumes ok: "store_ok s"
    and keep: "\<And>t. team_id (f t) = team_id t"
    and room: "\<And>t. t \<in> set (teams s) \<Longrightarrow> team_id t = tid
                 \<Longrightarrow> int (memberCount s tid) \<le> maxMembers (f t)"
  shows "store_ok (update_team tid f s)"
proof -
  let ?g = "\<lambda>t. if team_id t = tid then f t else t"
  let ?s' = "update_team tid f s"
  from ok have cap: "capacity_ok s" and refs: "refs_ok s" and ids: "ids_ok s"
    by (simp_all add: store_ok_def)
  have ts: "teams ?s' = map ?g (teams s)"
    by (simp add: update_team_def)
  have cnt: "memberCount ?s' x = memberCount s x" for x
    by (simp add: memberCount_def update_team_def)
  have g: "team_id (?g t) = team_id t" for t
    by (simp add: keep)
  have "int (memberCount ?s' (team_id t1)) \<le> maxMembers t1" if "t1 \<in> set (teams ?s')" for t1
  proof -
    from that obtain t0 where t0: "t0 \<in> set (teams s)" and t1: "t1 = ?g t0"
      by (auto simp: ts)
    show ?thesis
    proof (cases "team_id t0 = tid")
      case True
      with room [OF t0] t1 keep [of t0] show ?thesis by (simp add: cnt)
    next
      case False
      with cap t0 t1 show ?thesis by (simp add: cnt capacity_ok_iff)
    qed
  qed
  then have "capacity_ok ?s'" by (simp add: capacity_ok_iff)
  moreover have "refs_ok ?s'"
  proof -
    have "\<exists>t\<in>set (teams ?s'). team_id t = member_team m" if "m \<in> set (memberships ?s')" for m
    proof -
      from that have "m \<in> set (memberships s)" by (simp add: update_team_def)
      with refs obtain t0 where "t0 \<in> set (teams s)" "team_id t0 = member_team m"
        by (auto simp: refs_ok_iff)
      then have "?g t0 \<in> set (teams ?s')" "team_id (?g t0) = member_team m"
        using g [of t0] by (simp_all add: ts)
      then show ?thesis by blast
    qed
    then show ?thesis by (simp add: refs_ok_iff)
  qed
  moreover have "ids_ok ?s'"
  proof -
    have c: "team_id \<circ> ?g = team_id"
      by (rule ext) (simp add: keep)
    from ids show ?thesis unfolding ids_ok_def ts map_map c .
  qed
  ultimately show ?thesis by (simp add: store_ok_def)
qed

lemma step_ok:
  assumes ok: "store_ok s" and run: "step s op = Inr s'"
  shows "store_ok s'"
proof (cases op)
  case (CreateOp newId now h creatorId nm descr maxM)
  with run obtain t where "createTeam s newId now h creatorId nm descr maxM = Inr (s', t)"
    by (cases "createTeam s newId now h creatorId nm descr maxM") auto
  from createTeam_ok [OF ok this] show ?thesis .
next
  case (JoinOp now tid uid)
  with run obtain r where "joinTeam s now tid uid = Inr (s', r)"
    by (cases "joinTeam s now tid uid") auto
  from joinTeam_ok [OF ok this] show ?thesis .
next
  case (LeaveOp tid uid)
  with run have "s' = delete_team tid s \<or> s' = remove_membership tid uid s"
    by (auto simp: leaveTeam_def split: if_splits option.splits)
  with delete_team_ok [OF ok] remove_membership_ok [OF ok] show ?thesis by auto
next
  case (RemoveOp tid actorId target)
  with run have "s' = remove_membership tid target s"
    by (auto simp: removeMember_def split: if_splits option.splits)
  with remove_membership_ok [OF ok] show ?thesis by simp
next
  case (TransferOp tid actorId newLeaderId)
  with run have s': "s' = update_team tid (\<lambda>t. t\<lparr>leaderId := newLeaderId\<rparr>) s"
    by (auto simp: transferLeadership_def split: if_splits option.splits)
  have "int (memberCount s tid) \<le> maxMembers (t\<lparr>leaderId := newLeaderId\<rparr>)"
    if "t \<in> set (teams s)" "team_id t = tid" for t
    using ok that by (auto simp: store_ok_def capacity_ok_iff)
  then show ?thesis unfolding s' by (intro update_team_ok [OF ok]) simp_all
next
  case (UpdateOp tid actorId f)
  with run obtain t where found: "find_team s tid = Some t"
    and fits: "\<And>k. new_maxMembers f = Some k \<Longrightarrow> int (memberCount s tid) \<le> k"
    and s': "s' = update_team tid (apply_fields f) s"
    by (auto simp: updateTeamInfo_def split: if_splits option.splits)
  have "int (memberCount s tid) \<le> maxMembers (apply_fields f t0)"
    if "t0 \<in> set (teams s)" "team_id t0 = tid" for t0
  proof (cases "new_maxMembers f")
    case None
    with ok that show ?thesis by (auto simp: store_ok_def capacity_ok_iff apply_fields_def)
  next
    case (Some k)
    with fits [OF Some] show ?thesis by (simp add: apply_fields_def)
  qed
  then show ?thesis unfolding s'
    by (intro update_team_ok [OF ok]) (simp_all add: apply_fields_def)
qed

lemma apply_op_ok: "store_ok s \<Longrightarrow> store_ok (apply_op s op)"
  using step_ok [of s op] by (auto simp: apply_op_def split: sum.splits)

lemma run_ops_ok: "store_ok s \<Longrightarrow> store_ok (run_ops s ops)"
  unfolding run_ops_def by (induction ops arbitrary: s) (simp_all add: apply_op_ok)

lemma empty_store_ok: "store_ok empty_store"
  by (simp add: store_ok_def capacity_ok_def refs_ok_def ids_ok_def empty_store_def)

text \<open>
  C1. From a store that satisfies the invariants (the empty store does), every run of
  requests to the team service ends in a store where no team has more membership rows than
  its \<open>maxMembers\<close>. \<open>joinTeam\<close> fails with \<open>CapacityError\<close> whenever the team
  exists and already has \<open>maxMembers\<close> rows or more, and a \<open>joinTeam\<close> that succeeds adds
  one row and keeps the count within the cap.
\<close>

theorem joinTeam_capacity:
  assumes ok: "store_ok s"
  shows "capacity_ok (run_ops s ops)
       \<and> (\<forall>t. find_team s tid = Some t \<and> maxMembers t \<le> int (memberCount s tid)
              \<longrightarrow> joinTeam s now tid uid = Inl CapacityError)
       \<and> (\<forall>s' r. joinTeam s now tid uid = Inr (s', r)
              \<longrightarrow> memberCount s' tid = memberCount s tid + 1 \<and> capacity_ok s')"
proof -
  have "capacity_ok (run_ops s ops)"
    using run_ops_ok [OF ok] by (simp add: store_ok_def)
  moreover have "joinTeam s now tid uid = Inl CapacityError"
    if "find_team s tid = Some t" "maxMembers t \<le> int (memberCount s tid)" for t
    using that by (simp add: joinTeam_def)
  moreover have "memberCount s' tid = memberCount s tid + 1 \<and> capacity_ok s'"
    if run: "joinTeam s now tid uid = Inr (s', r)" for s' r
  proof -
    from joinTeam_ok [OF ok run] have "capacity_ok s'" by (simp add: store_ok_def)
    moreover from run have "memberCount s' tid = memberCount s tid + 1"
      by (auto simp: joinTeam_def Let_def memberCount_def split: option.splits if_splits)
    ultimately show ?thesis by simp
  qed
  ultimately show ?thesis by blast
qed

lemma example_run: "run_ops empty_store example_ops = full_store"
  by (simp add: run_ops_def example_ops_def empty_store_def full_store_def apply_op_def
      createTeam_def joinTeam_def in_hackathon_def find_team_def memberCount_def
      is_member_def roster_def Let_def)

theorem joinTeam_capacity_witness:
  "store_ok empty_store
   \<and> capacity_ok (run_ops empty_store example_ops)
   \<and> memberCount (run_ops empty_store example_ops) ''t1'' = 2
   \<and> store_ok full_store
   \<and> joinTeam full_store 3 ''t1'' ''cy'' = Inl CapacityError"
proof -
  have full: "store_ok full_store"
    using run_ops_ok [OF empty_store_ok, of example_ops] by (simp add: example_run)
  have found: "find_team full_store ''t1'' = Some (hd (teams full_store))"
    by (simp add: find_team_def full_store_def)
  have count: "memberCount full_store ''t1'' = 2"
    by (simp add: memberCount_def full_store_def)
  have cap: "maxMembers (hd (teams full_store)) \<le> int (memberCount full_store ''t1'')"
    by (simp add: count) (simp add: full_store_def)
  from joinTeam_capacity [OF empty_store_ok, of example_ops]
    joinTeam_capacity [OF full, of "[]" "''t1''" 3 "''cy''"] found cap count full
  show ?thesis by (simp add: empty_store_ok example_run)
qed

end
